theory Spec2Isabelle
  imports Complex_Main "HOL-Library.Multiset"
begin

section \<open>Values of the raw rows\<close>

text \<open>
  The rows that \<^verbatim>\<open>load_data_from_notion\<close> reads are decoded JSON: Python \<^verbatim>\<open>None\<close>,
  booleans, ints, floats, strings, lists and dicts. A dict is kept as the list of its
  items; a lookup takes the first item with the key (a Python dict has one item per key).
  A float is modelled by the real number it denotes; the non-finite floats and the
  rounding of \<^verbatim>\<open>float(n)\<close> for an int beyond 53 bits are outside the model.
\<close>

datatype json =
    JNull
  | JBool bool
  | JInt int
  | JFloat real
  | JStr string
  | JList "json list"
  | JDict "(string \<times> json) list"

text \<open>The exceptions the function can meet. Every handler of the source catches
  \<^verbatim>\<open>Exception\<close>, so the handlers do not tell them apart.\<close>

datatype exn =
    KeyError
  | TypeError
  | AttributeError
  | IndexError
  | ValueError
  | OverflowError
  | UnboundLocalError
  | DateParseError
  | APIResponseError

definition and_then :: "exn + 'a \<Rightarrow> ('a \<Rightarrow> exn + 'b) \<Rightarrow> exn + 'b" where
  "and_then m f = (case m of Inl e \<Rightarrow> Inl e | Inr v \<Rightarrow> f v)"

text \<open>Truth value of an object: \<^verbatim>\<open>if x\<close>, \<^verbatim>\<open>x or y\<close>.\<close>

fun truthy :: "json \<Rightarrow> bool" where
  "truthy JNull = False"
| "truthy (JBool b) = b"
| "truthy (JInt n) = (n \<noteq> 0)"
| "truthy (JFloat r) = (r \<noteq> 0)"
| "truthy (JStr s) = (s \<noteq> [])"
| "truthy (JList xs) = (xs \<noteq> [])"
| "truthy (JDict kvs) = (kvs \<noteq> [])"

text \<open>\<^verbatim>\<open>obj.get(key, default)\<close>: only a dict has the method.\<close>

fun dict_get :: "json \<Rightarrow> string \<Rightarrow> json \<Rightarrow> exn + json" where
  "dict_get (JDict kvs) k d = Inr (case map_of kvs k of None \<Rightarrow> d | Some v \<Rightarrow> v)"
| "dict_get _ k d = Inl AttributeError"

text \<open>\<^verbatim>\<open>obj[key]\<close> with a string key.\<close>

fun getitem :: "json \<Rightarrow> string \<Rightarrow> exn + json" where
  "getitem (JDict kvs) k = (case map_of kvs k of None \<Rightarrow> Inl KeyError | Some v \<Rightarrow> Inr v)"
| "getitem _ k = Inl TypeError"

text \<open>\<^verbatim>\<open>obj[0]\<close>. The keys of a decoded JSON object are strings, so \<^verbatim>\<open>0\<close> is never a key.\<close>

fun getitem0 :: "json \<Rightarrow> exn + json" where
  "getitem0 (JList []) = Inl IndexError"
| "getitem0 (JList (x # xs)) = Inr x"
| "getitem0 (JStr []) = Inl IndexError"
| "getitem0 (JStr (c # cs)) = Inr (JStr [c])"
| "getitem0 (JDict kvs) = Inl KeyError"
| "getitem0 _ = Inl TypeError"

fun is_substring :: "string \<Rightarrow> string \<Rightarrow> bool" where
  "is_substring sub [] = (sub = [])"
| "is_substring sub (c # cs) = (take (length sub) (c # cs) = sub \<or> is_substring sub cs)"

text \<open>\<^verbatim>\<open>key in obj\<close> with a string key: a key of a dict, an element of a list, a substring
  of a string; the other values are not iterable.\<close>

fun contains :: "string \<Rightarrow> json \<Rightarrow> exn + bool" where
  "contains k (JDict kvs) = Inr (map_of kvs k \<noteq> None)"
| "contains k (JList xs) = Inr (JStr k \<in> set xs)"
| "contains k (JStr s) = Inr (is_substring k s)"
| "contains k _ = Inl TypeError"

text \<open>\<^verbatim>\<open>len(obj)\<close> and the elements that \<^verbatim>\<open>results.extend(obj)\<close> appends.\<close>

fun py_len :: "json \<Rightarrow> exn + nat" where
  "py_len (JList xs) = Inr (length xs)"
| "py_len (JStr s) = Inr (length s)"
| "py_len (JDict kvs) = Inr (length kvs)"
| "py_len _ = Inl TypeError"

fun py_iter :: "json \<Rightarrow> exn + json list" where
  "py_iter (JList xs) = Inr xs"
| "py_iter (JStr s) = Inr (map (\<lambda>c. JStr [c]) s)"
| "py_iter (JDict kvs) = Inr (map (\<lambda>kv. JStr (fst kv)) kvs)"
| "py_iter _ = Inl TypeError"

text \<open>\<^verbatim>\<open>float(x)\<close>. An int that rounds beyond the largest double raises
  \<^verbatim>\<open>OverflowError\<close>; the parse of a string is the library's, taken as a parameter.\<close>

definition double_overflow :: int where
  "double_overflow = 2 ^ 1024 - 2 ^ 970"

fun py_float :: "(string \<Rightarrow> real option) \<Rightarrow> json \<Rightarrow> exn + real" where
  "py_float fs (JInt n) =
     (if \<bar>n\<bar> < double_overflow then Inr (of_int n) else Inl OverflowError)"
| "py_float fs (JFloat r) = Inr r"
| "py_float fs (JBool b) = Inr (if b then 1 else 0)"
| "py_float fs (JStr s) = (case fs s of None \<Rightarrow> Inl ValueError | Some r \<Rightarrow> Inr r)"
| "py_float fs _ = Inl TypeError"

section \<open>Timestamps\<close>

text \<open>
  A pandas \<^verbatim>\<open>Timestamp\<close> is its wall-clock reading, in nanoseconds since
  1970-01-01 00:00 of its own clock, and its offset from UTC in nanoseconds when it carries
  a timezone; \<^verbatim>\<open>NaT\<close> is the missing timestamp.
\<close>

datatype timestamp = NaT | Timestamp (wall: int) (utcoffset: "int option")

definition ns_per_second :: int where "ns_per_second = 1000000000"
definition ns_per_minute :: int where "ns_per_minute = 60 * ns_per_second"
definition ns_per_day :: int where "ns_per_day = 86400 * ns_per_second"

text \<open>Modelled from the spec: the timezone table behind \<^verbatim>\<open>'Asia/Kolkata'\<close> is not part of
  the source; the spec gives the target timezone as the fixed offset UTC+5:30.\<close>

definition asia_kolkata :: int where
  "asia_kolkata = 330 * ns_per_minute"

text \<open>\<^verbatim>\<open>ts.tz_localize('UTC')\<close>: a zone-less timestamp keeps its reading and becomes UTC;
  a timestamp that has a zone is refused.\<close>

fun tz_localize_UTC :: "timestamp \<Rightarrow> exn + timestamp" where
  "tz_localize_UTC NaT = Inr NaT"
| "tz_localize_UTC (Timestamp w None) = Inr (Timestamp w (Some 0))"
| "tz_localize_UTC (Timestamp w (Some off)) = Inl TypeError"

text \<open>\<^verbatim>\<open>ts.tz_convert('Asia/Kolkata')\<close>: the same instant read on the target clock;
  a zone-less timestamp is refused.\<close>

fun tz_convert_kolkata :: "timestamp \<Rightarrow> exn + timestamp" where
  "tz_convert_kolkata NaT = Inr NaT"
| "tz_convert_kolkata (Timestamp w None) = Inl TypeError"
| "tz_convert_kolkata (Timestamp w (Some off)) =
     Inr (Timestamp (w - off + asia_kolkata) (Some asia_kolkata))"

text \<open>\<^verbatim>\<open>ts.tz_localize(None)\<close>: the reading stays, the zone goes.\<close>

fun tz_localize_None :: "timestamp \<Rightarrow> timestamp" where
  "tz_localize_None NaT = NaT"
| "tz_localize_None (Timestamp w tz) = Timestamp w None"

text \<open>\<^verbatim>\<open>ts.tzinfo is None\<close>.\<close>

fun tzinfo_is_None :: "timestamp \<Rightarrow> bool" where
  "tzinfo_is_None NaT = True"
| "tzinfo_is_None (Timestamp w tz) = (tz = None)"

text \<open>The calendar day and the time of day of a reading.\<close>

fun calendar_day :: "timestamp \<Rightarrow> int" where
  "calendar_day NaT = 0"
| "calendar_day (Timestamp w tz) = w div ns_per_day"

fun time_of_day :: "timestamp \<Rightarrow> int" where
  "time_of_day NaT = 0"
| "time_of_day (Timestamp w tz) = w mod ns_per_day"

section \<open>The library functions the source calls\<close>

text \<open>
  \<^verbatim>\<open>pd.to_datetime(x, format='mixed')\<close>, \<^verbatim>\<open>pd.to_datetime(x)\<close> and the string case of
  \<^verbatim>\<open>float\<close> belong to libraries; they are parameters of the model. A parse yields a
  timestamp (possibly \<^verbatim>\<open>NaT\<close>) or raises.
\<close>

record library =
  to_datetime_mixed :: "json \<Rightarrow> exn + timestamp"
  to_datetime :: "json \<Rightarrow> exn + timestamp"
  float_of_str :: "string \<Rightarrow> real option"

section \<open>Field extraction\<close>

text \<open>Line 61: \<^verbatim>\<open>properties.get("Date", {}).get("date", {}).get("start")\<close>.\<close>

definition date_value :: "json \<Rightarrow> exn + json" where
  "date_value properties =
     and_then (dict_get properties ''Date'' (JDict [])) (\<lambda>d.
     and_then (dict_get d ''date'' (JDict [])) (\<lambda>dd.
     dict_get dd ''start'' JNull))"

text \<open>Lines 64 to 78: the chain of \<^verbatim>\<open>if\<close>/\<^verbatim>\<open>elif\<close> on the keys of the category property.\<close>

definition category_value :: "json \<Rightarrow> exn + json" where
  "category_value properties =
     and_then (dict_get properties ''Category'' (JDict [])) (\<lambda>category_prop.
     if truthy category_prop then
       and_then (contains ''select'' category_prop) (\<lambda>has_select.
       if has_select then
         and_then (getitem category_prop ''select'') (\<lambda>sel.
         if truthy sel then getitem sel ''name'' else Inr (JStr ''''))
       else
         and_then (contains ''multi_select'' category_prop) (\<lambda>has_multi.
         if has_multi then
           and_then (getitem category_prop ''multi_select'') (\<lambda>multi_select.
           if truthy multi_select
           then and_then (getitem0 multi_select) (\<lambda>m. getitem m ''name'')
           else Inr (JStr ''''))
         else
           and_then (contains ''rich_text'' category_prop) (\<lambda>has_rich.
           if has_rich then
             and_then (getitem category_prop ''rich_text'') (\<lambda>rich_text.
             if truthy rich_text
             then and_then (getitem0 rich_text) (\<lambda>f.
                  and_then (getitem f ''text'') (\<lambda>t. getitem t ''content''))
             else Inr (JStr ''''))
           else Inr (JStr ''''))))
     else Inr (JStr ''''))"

text \<open>Lines 81 to 96. The handler of the inner \<^verbatim>\<open>try\<close> runs the date-only parse of
  \<^verbatim>\<open>date_value.split('T')[0]\<close>; what that raises leaves the row's \<^verbatim>\<open>try\<close> body.\<close>

fun split_T_first :: "json \<Rightarrow> exn + json" where
  "split_T_first (JStr s) = Inr (JStr (takeWhile (\<lambda>c. c \<noteq> CHR ''T'') s))"
| "split_T_first _ = Inl AttributeError"

definition localized :: "library \<Rightarrow> json \<Rightarrow> exn + timestamp" where
  "localized lib dv =
     and_then (to_datetime_mixed lib dv) (\<lambda>parsed_date.
     and_then (if tzinfo_is_None parsed_date then tz_localize_UTC parsed_date
               else Inr parsed_date) (\<lambda>parsed_date.
     and_then (tz_convert_kolkata parsed_date) (\<lambda>parsed_date.
     Inr (tz_localize_None parsed_date))))"

definition parsed_date :: "library \<Rightarrow> json \<Rightarrow> exn + timestamp option" where
  "parsed_date lib dv =
     (if truthy dv then
        (case localized lib dv of
           Inr p \<Rightarrow> Inr (Some p)
         | Inl e \<Rightarrow> and_then (split_T_first dv) (\<lambda>d.
                    and_then (to_datetime lib d) (\<lambda>p. Inr (Some p))))
      else Inr None)"

text \<open>Lines 99 and 103: the content of the first fragment of a title or rich-text field,
  \<^verbatim>\<open>properties.get(F, {}).get(K, [{}])[0].get("text", {}).get("content", "")
  if properties.get(F, {}).get(K) else ""\<close>.\<close>

definition first_content :: "json \<Rightarrow> string \<Rightarrow> string \<Rightarrow> exn + json" where
  "first_content properties field key =
     and_then (dict_get properties field (JDict [])) (\<lambda>p.
     and_then (dict_get p key JNull) (\<lambda>c.
     if truthy c then
       and_then (dict_get properties field (JDict [])) (\<lambda>p.
       and_then (dict_get p key (JList [JDict []])) (\<lambda>frags.
       and_then (getitem0 frags) (\<lambda>frag.
       and_then (dict_get frag ''text'' (JDict [])) (\<lambda>t.
       dict_get t ''content'' (JStr '''')))))
     else Inr (JStr '''')))"

text \<open>Line 100: \<^verbatim>\<open>float(properties.get("Amount", {}).get("number", 0) or 0)\<close>.\<close>

definition amount :: "library \<Rightarrow> json \<Rightarrow> exn + real" where
  "amount lib properties =
     and_then (dict_get properties ''Amount'' (JDict [])) (\<lambda>a.
     and_then (dict_get a ''number'' (JInt 0)) (\<lambda>n.
     py_float (float_of_str lib) (if truthy n then n else JInt 0)))"

section \<open>Rows\<close>

record row =
  Name :: json
  Amount :: real
  Category :: json
  Date :: "timestamp option"
  Comment :: json

text \<open>Lines 61 to 104: the body of the row's \<^verbatim>\<open>try\<close> once \<^verbatim>\<open>properties\<close> is bound.\<close>

definition extract_row :: "library \<Rightarrow> json \<Rightarrow> exn + row" where
  "extract_row lib properties =
     and_then (date_value properties) (\<lambda>dv.
     and_then (category_value properties) (\<lambda>cat.
     and_then (parsed_date lib dv) (\<lambda>pd.
     and_then (first_content properties ''Name'' ''title'') (\<lambda>name.
     and_then (amount lib properties) (\<lambda>amt.
     and_then (first_content properties ''Comment'' ''rich_text'') (\<lambda>comment.
     Inr \<lparr>Name = name, Amount = amt, Category = cat, Date = pd, Comment = comment\<rparr>))))))"

text \<open>Lines 60 to 104: the whole body of the row's \<^verbatim>\<open>try\<close>.\<close>

definition try_row :: "library \<Rightarrow> json \<Rightarrow> exn + row" where
  "try_row lib page = and_then (getitem page ''properties'') (extract_row lib)"

text \<open>
  Lines 57 to 108: the loop over the raw rows. The handler formats the variable
  \<^verbatim>\<open>properties\<close> into its log line. The variable is local to the function and is first
  bound by line 60, so the second argument is its binding: \<open>None\<close> until a row has passed
  line 60. A handler that runs before that raises \<^verbatim>\<open>UnboundLocalError\<close>, which leaves
  the loop.
\<close>

fun process_rows :: "library \<Rightarrow> json option \<Rightarrow> json list \<Rightarrow> row list \<Rightarrow> exn + row list" where
  "process_rows lib properties [] processed_data = Inr processed_data"
| "process_rows lib properties (page # results) processed_data =
     (case getitem page ''properties'' of
        Inl e \<Rightarrow>
          (case properties of
             None \<Rightarrow> Inl UnboundLocalError
           | Some p \<Rightarrow> process_rows lib properties results processed_data)
      | Inr p \<Rightarrow>
          (case extract_row lib p of
             Inl e \<Rightarrow> process_rows lib (Some p) results processed_data
           | Inr r \<Rightarrow> process_rows lib (Some p) results (processed_data @ [r])))"

section \<open>The table\<close>

record dataframe =
  columns :: "string list"
  rows :: "row list"

definition schema :: "string list" where
  "schema = [''Name'', ''Amount'', ''Category'', ''Date'', ''Comment'']"

text \<open>A date is missing when it is \<^verbatim>\<open>None\<close> or \<^verbatim>\<open>NaT\<close>.\<close>

fun notna :: "timestamp option \<Rightarrow> bool" where
  "notna None = False"
| "notna (Some NaT) = False"
| "notna (Some (Timestamp w tz)) = True"

text \<open>Line 115: \<^verbatim>\<open>df.dropna(subset=['Date'])\<close>.\<close>

definition dropna_Date :: "dataframe \<Rightarrow> dataframe" where
  "dropna_Date df = df\<lparr>rows := filter (\<lambda>r. notna (Date r)) (rows df)\<rparr>"

text \<open>
  Line 118: \<^verbatim>\<open>df.sort_values('Date')\<close>. Timestamps are ordered by their instant: the
  reading of a zone-less one, the reading less the offset of one with a zone. Comparing a
  zone-less timestamp with one that has a zone raises \<^verbatim>\<open>TypeError\<close>; missing dates go
  last. The order that pandas gives to rows of equal date is not fixed by its default
  algorithm; the model keeps them in their order.
\<close>

fun sort_instant :: "timestamp option \<Rightarrow> int" where
  "sort_instant (Some (Timestamp w None)) = w"
| "sort_instant (Some (Timestamp w (Some off))) = w - off"
| "sort_instant _ = 0"

fun zoneless :: "timestamp option \<Rightarrow> bool" where
  "zoneless (Some (Timestamp w None)) = True"
| "zoneless _ = False"

fun zoned :: "timestamp option \<Rightarrow> bool" where
  "zoned (Some (Timestamp w (Some off))) = True"
| "zoned _ = False"

definition comparable :: "row list \<Rightarrow> bool" where
  "comparable rs = (list_all (\<lambda>r. zoneless (Date r)) rs \<or> list_all (\<lambda>r. zoned (Date r)) rs)"

definition sort_values_Date :: "dataframe \<Rightarrow> exn + dataframe" where
  "sort_values_Date df =
     (let present = filter (\<lambda>r. notna (Date r)) (rows df);
          missing = filter (\<lambda>r. \<not> notna (Date r)) (rows df)
      in if comparable present
         then Inr (df\<lparr>rows := sort_key (\<lambda>r. sort_instant (Date r)) present @ missing\<rparr>)
         else Inl TypeError)"

text \<open>Lines 110 to 118. \<^verbatim>\<open>pd.DataFrame(processed_data)\<close> takes its columns from the keys
  of the row dicts, which are the five of line 98 to 104.\<close>

definition table :: "row list \<Rightarrow> exn + dataframe" where
  "table processed_data =
     (if processed_data = [] then Inr \<lparr>columns = schema, rows = []\<rparr>
      else sort_values_Date (dropna_Date \<lparr>columns = schema, rows = processed_data\<rparr>))"

section \<open>The paginated source\<close>

text \<open>
  \<^verbatim>\<open>notion.databases.query\<close> is a call to a remote service: from its state and the
  cursor it is given (none on the first call) it answers with a decoded response or
  raises, and moves to a new state.
\<close>

type_synonym 'st source = "'st \<Rightarrow> json option \<Rightarrow> (exn + json) \<times> 'st"

text \<open>Lines 40 to 46 on the first response: the length for the log line, the log line
  of the first result's properties (an f-string, evaluated whatever the log level), and
  the rows to extend \<^verbatim>\<open>results\<close> with.\<close>

definition first_page :: "json \<Rightarrow> exn + json list" where
  "first_page query =
     and_then (getitem query ''results'') (\<lambda>r.
     and_then (py_len r) (\<lambda>n.
     and_then (if truthy r
               then and_then (getitem0 r) (\<lambda>first. getitem first ''properties'')
               else Inr JNull) (\<lambda>logged.
     py_iter r)))"

text \<open>Lines 54 and 55 on a further response.\<close>

definition next_page :: "json \<Rightarrow> exn + json list" where
  "next_page query =
     and_then (getitem query ''results'') (\<lambda>r.
     and_then (py_iter r) (\<lambda>rs.
     and_then (py_len r) (\<lambda>n. Inr rs)))"

text \<open>Lines 49 to 55: the loop runs as long as the last response says \<^verbatim>\<open>has_more\<close>;
  \<open>None\<close> is the loop that never ends.\<close>

partial_function (option) paginate ::
  "'st source \<Rightarrow> 'st \<Rightarrow> json \<Rightarrow> json list \<Rightarrow> (exn + json list) option" where
  "paginate src st query results =
     (case dict_get query ''has_more'' (JBool False) of
        Inl e \<Rightarrow> Some (Inl e)
      | Inr has_more \<Rightarrow>
          if truthy has_more then
            (case getitem query ''next_cursor'' of
               Inl e \<Rightarrow> Some (Inl e)
             | Inr cursor \<Rightarrow>
                 (case fst (src st (Some cursor)) of
                    Inl e \<Rightarrow> Some (Inl e)
                  | Inr query' \<Rightarrow>
                      (case next_page query' of
                         Inl e \<Rightarrow> Some (Inl e)
                       | Inr rs \<Rightarrow>
                           paginate src (snd (src st (Some cursor))) query' (results @ rs))))
          else Some (Inr results))"

declare paginate.simps [code]

text \<open>Lines 37 to 56.\<close>

definition fetch :: "'st source \<Rightarrow> 'st \<Rightarrow> (exn + json list) option" where
  "fetch src st =
     (case fst (src st None) of
        Inl e \<Rightarrow> Some (Inl e)
      | Inr query \<Rightarrow>
          (case first_page query of
             Inl e \<Rightarrow> Some (Inl e)
           | Inr results \<Rightarrow> paginate src (snd (src st None)) query results))"

text \<open>Lines 57 to 118: from the raw rows to the table.\<close>

definition process_results :: "library \<Rightarrow> json list \<Rightarrow> exn + dataframe" where
  "process_results lib results = and_then (process_rows lib None results []) table"

text \<open>The function: lines 32 to 122. The outer handler logs and raises again, so an
  exception that leaves the body is the function's. The client and the database
  identifier of lines 33 and 34 are part of the source; the cache of line 30 stores the
  result and changes none.\<close>

definition load_data_from_notion :: "library \<Rightarrow> 'st source \<Rightarrow> 'st \<Rightarrow> (exn + dataframe) option" where
  "load_data_from_notion lib src st =
     (case fetch src st of
        None \<Rightarrow> None
      | Some (Inl e) \<Rightarrow> Some (Inl e)
      | Some (Inr results) \<Rightarrow> Some (process_results lib results))"

section \<open>A library instance for ISO 8601 strings\<close>

text \<open>
  The source hands the library the strings of the service, which writes a date as
  \<^verbatim>\<open>YYYY-MM-DD\<close> and a date with time as \<^verbatim>\<open>YYYY-MM-DDTHH:MM:SS\<close>, with an optional
  fraction of the second and an optional zone \<^verbatim>\<open>Z\<close> or \<^verbatim>\<open>+HH:MM\<close>. This instance reads
  these strings and refuses the rest; the theorems hold for every library, and the
  instance serves to evaluate the model on rows.
\<close>

definition digit :: "char \<Rightarrow> nat option" where
  "digit c = (let n = (of_char c :: nat) in if 48 \<le> n \<and> n \<le> 57 then Some (n - 48) else None)"

fun digits :: "string \<Rightarrow> nat \<Rightarrow> nat option" where
  "digits [] acc = Some acc"
| "digits (c # cs) acc = (case digit c of None \<Rightarrow> None | Some d \<Rightarrow> digits cs (10 * acc + d))"

definition number :: "string \<Rightarrow> nat option" where
  "number s = (if s = [] then None else digits s 0)"

definition leap_year :: "int \<Rightarrow> bool" where
  "leap_year y = (y mod 4 = 0 \<and> (y mod 100 \<noteq> 0 \<or> y mod 400 = 0))"

definition days_in_month :: "int \<Rightarrow> int \<Rightarrow> int" where
  "days_in_month y m =
     (if m = 2 then (if leap_year y then 29 else 28)
      else if m = 4 \<or> m = 6 \<or> m = 9 \<or> m = 11 then 30 else 31)"

text \<open>Days from 1970-01-01 to a date of the proleptic Gregorian calendar.\<close>

definition days_from_civil :: "int \<Rightarrow> int \<Rightarrow> int \<Rightarrow> int" where
  "days_from_civil y m d =
     (let y' = (if m \<le> 2 then y - 1 else y);
          era = y' div 400;
          yoe = y' - era * 400;
          doy = (153 * (if m > 2 then m - 3 else m + 9) + 2) div 5 + d - 1;
          doe = yoe * 365 + yoe div 4 - yoe div 100 + doy
      in era * 146097 + doe - 719468)"

definition iso_date :: "string \<Rightarrow> int option" where
  "iso_date s =
     (if length s = 10 \<and> s ! 4 = CHR ''-'' \<and> s ! 7 = CHR ''-'' then
        (case (number (take 4 s), number (take 2 (drop 5 s)), number (drop 8 s)) of
           (Some y, Some m, Some d) \<Rightarrow>
             if 1 \<le> m \<and> m \<le> 12 \<and> 1 \<le> d \<and> int d \<le> days_in_month (int y) (int m)
             then Some (days_from_civil (int y) (int m) (int d) * ns_per_day)
             else None
         | _ \<Rightarrow> None)
      else None)"

definition iso_fraction :: "string \<Rightarrow> int option" where
  "iso_fraction s =
     (if s = [] then Some 0
      else if hd s = CHR ''.'' \<and> 2 \<le> length s \<and> length s \<le> 10 then
        (case number (tl s) of
           None \<Rightarrow> None
         | Some f \<Rightarrow> Some (int f * 10 ^ (10 - length s)))
      else None)"

definition iso_time :: "string \<Rightarrow> int option" where
  "iso_time s =
     (if 8 \<le> length s \<and> s ! 2 = CHR '':'' \<and> s ! 5 = CHR '':'' then
        (case (number (take 2 s), number (take 2 (drop 3 s)), number (take 2 (drop 6 s)),
               iso_fraction (drop 8 s)) of
           (Some h, Some mi, Some sec, Some f) \<Rightarrow>
             if h < 24 \<and> mi < 60 \<and> sec < 60
             then Some ((int h * 3600 + int mi * 60 + int sec) * ns_per_second + f)
             else None
         | _ \<Rightarrow> None)
      else None)"

definition iso_zone :: "string \<Rightarrow> int option option" where
  "iso_zone s =
     (if s = [] then Some None
      else if s = ''Z'' then Some (Some 0)
      else if length s = 6 \<and> (hd s = CHR ''+'' \<or> hd s = CHR ''-'') \<and> s ! 3 = CHR '':'' then
        (case (number (take 2 (tl s)), number (drop 4 s)) of
           (Some h, Some mi) \<Rightarrow>
             if h < 24 \<and> mi < 60
             then Some (Some ((if hd s = CHR ''-'' then - 1 else 1)
                              * (int h * 60 + int mi) * ns_per_minute))
             else None
         | _ \<Rightarrow> None)
      else None)"

definition zone_start :: "char \<Rightarrow> bool" where
  "zone_start c = (c = CHR ''Z'' \<or> c = CHR ''+'' \<or> c = CHR ''-'')"

definition iso8601 :: "string \<Rightarrow> timestamp option" where
  "iso8601 s =
     (case iso_date (take 10 s) of
        None \<Rightarrow> None
      | Some day \<Rightarrow>
          if length s = 10 then Some (Timestamp day None)
          else if s ! 10 = CHR ''T'' then
            (case (iso_time (takeWhile (\<lambda>c. \<not> zone_start c) (drop 11 s)),
                   iso_zone (dropWhile (\<lambda>c. \<not> zone_start c) (drop 11 s))) of
               (Some t, Some z) \<Rightarrow> Some (Timestamp (day + t) z)
             | _ \<Rightarrow> None)
          else None)"

fun iso_to_datetime :: "json \<Rightarrow> exn + timestamp" where
  "iso_to_datetime (JStr s) =
     (case iso8601 s of None \<Rightarrow> Inl DateParseError | Some t \<Rightarrow> Inr t)"
| "iso_to_datetime _ = Inl TypeError"

definition iso_library :: library where
  "iso_library =
     \<lparr>to_datetime_mixed = iso_to_datetime,
      to_datetime = iso_to_datetime,
      float_of_str = (\<lambda>s. map_option real (number s))\<rparr>"

text \<open>A source that serves a fixed list of responses, whatever the cursor: its state is
  the list of the responses still to serve.\<close>

fun replay :: "json list source" where
  "replay [] cursor = (Inl APIResponseError, [])"
| "replay (q # qs) cursor = (Inr q, qs)"

section \<open>Rows and responses to evaluate the model on\<close>

text \<open>A page object with a title, a number and a date string; the same without the date
  property; the same with an empty date cell, which the service writes as a null
  \<^verbatim>\<open>date\<close>; and a response of the service.\<close>

definition expense :: "string \<Rightarrow> int \<Rightarrow> string \<Rightarrow> json" where
  "expense name n start =
     JDict [(''properties'', JDict
       [(''Name'', JDict [(''title'', JList [JDict [(''text'', JDict [(''content'', JStr name)])]])]),
        (''Amount'', JDict [(''number'', JInt n)]),
        (''Date'', JDict [(''date'', JDict [(''start'', JStr start)])])])]"

definition expense_no_date :: "string \<Rightarrow> int \<Rightarrow> json" where
  "expense_no_date name n =
     JDict [(''properties'', JDict
       [(''Name'', JDict [(''title'', JList [JDict [(''text'', JDict [(''content'', JStr name)])]])]),
        (''Amount'', JDict [(''number'', JInt n)])])]"

definition expense_empty_date :: "string \<Rightarrow> int \<Rightarrow> json" where
  "expense_empty_date name n =
     JDict [(''properties'', JDict
       [(''Name'', JDict [(''title'', JList [JDict [(''text'', JDict [(''content'', JStr name)])]])]),
        (''Amount'', JDict [(''number'', JInt n)]),
        (''Date'', JDict [(''date'', JNull)])])]"

text \<open>A partial page object: the service lists a page it gives no content of by its
  \<^verbatim>\<open>object\<close> and \<^verbatim>\<open>id\<close> alone.\<close>

definition partial_page :: "string \<Rightarrow> json" where
  "partial_page ident = JDict [(''object'', JStr ''page''), (''id'', JStr ident)]"

definition response :: "json list \<Rightarrow> bool \<Rightarrow> json \<Rightarrow> json" where
  "response results has_more next_cursor =
     JDict [(''results'', JList results), (''has_more'', JBool has_more),
            (''next_cursor'', next_cursor)]"

text \<open>The record of a row that has a title, a number and a date.\<close>

definition expense_record :: "string \<Rightarrow> real \<Rightarrow> int \<Rightarrow> row" where
  "expense_record name x w =
     \<lparr>Name = JStr name, Amount = x, Category = JStr [], Date = Some (Timestamp w None),
      Comment = JStr []\<rparr>"

text \<open>Two responses of a source: the first says that there is more.\<close>

definition first_response :: json where
  "first_response =
     response [expense ''rent'' 900 ''2024-03-01'', expense_no_date ''tea'' 2,
               expense ''lunch'' 12 ''2024-01-15T10:00:00Z''] True (JStr ''c1'')"

definition second_response :: json where
  "second_response =
     response [expense_empty_date ''bus'' 3, expense ''book'' 20 ''2024-02-10''] False JNull"

section \<open>Vocabulary of the properties\<close>

text \<open>The records of the rows whose \<^verbatim>\<open>try\<close> body raises nothing, in the order of the
  rows.\<close>

definition records :: "library \<Rightarrow> json list \<Rightarrow> row list" where
  "records lib results =
     concat (map (\<lambda>page. case try_row lib page of Inl e \<Rightarrow> [] | Inr r \<Rightarrow> [r]) results)"

text \<open>A row raises in extraction; a row yields a record without a date.\<close>

definition raises :: "library \<Rightarrow> json \<Rightarrow> bool" where
  "raises lib page = (case try_row lib page of Inl e \<Rightarrow> True | Inr r \<Rightarrow> False)"

definition dateless :: "library \<Rightarrow> json \<Rightarrow> bool" where
  "dateless lib page = (case try_row lib page of Inl e \<Rightarrow> False | Inr r \<Rightarrow> \<not> notna (Date r))"

text \<open>A raw row is a full page object when it carries its \<^verbatim>\<open>properties\<close>.\<close>

definition page_object :: "json \<Rightarrow> bool" where
  "page_object page = (case getitem page ''properties'' of Inl e \<Rightarrow> False | Inr p \<Rightarrow> True)"

text \<open>The rows of a response whose \<^verbatim>\<open>results\<close> is a list, and a response that is
  well formed: its \<^verbatim>\<open>results\<close> is a list of full page objects.\<close>

definition results_of :: "json \<Rightarrow> json list" where
  "results_of query = (case getitem query ''results'' of Inr (JList rs) \<Rightarrow> rs | _ \<Rightarrow> [])"

definition page_list :: "json \<Rightarrow> bool" where
  "page_list query =
     (case getitem query ''results'' of
        Inr (JList rs) \<Rightarrow> list_all page_object rs
      | _ \<Rightarrow> False)"

definition says_more :: "json \<Rightarrow> bool" where
  "says_more query =
     (case dict_get query ''has_more'' (JBool False) of Inl e \<Rightarrow> False | Inr v \<Rightarrow> truthy v)"

text \<open>
  The source answers the request with cursor \<open>c\<close> in state \<open>st\<close>, and the requests that
  follow each response's \<^verbatim>\<open>next_cursor\<close>, with the responses \<open>pages\<close>: every response but
  the last says \<^verbatim>\<open>has_more\<close>, and the last does not.
\<close>

fun serves :: "'st source \<Rightarrow> 'st \<Rightarrow> json option \<Rightarrow> json list \<Rightarrow> bool" where
  "serves src st c [] = False"
| "serves src st c [q] = (fst (src st c) = Inr q \<and> \<not> says_more q)"
| "serves src st c (q # q' # qs) =
     (fst (src st c) = Inr q \<and> says_more q \<and>
      (case getitem q ''next_cursor'' of
         Inl e \<Rightarrow> False
       | Inr cursor \<Rightarrow> serves src (snd (src st c)) (Some cursor) (q' # qs)))"

text \<open>A field is missing from the properties of a row: the property is absent, or it is
  a dict whose value under the key is absent, null or empty.\<close>

definition missing :: "(string \<times> json) list \<Rightarrow> string \<Rightarrow> string \<Rightarrow> bool" where
  "missing ps field key =
     (case map_of ps field of
        None \<Rightarrow> True
      | Some (JDict p) \<Rightarrow> (case map_of p key of None \<Rightarrow> True | Some v \<Rightarrow> \<not> truthy v)
      | Some _ \<Rightarrow> False)"

text \<open>
  The category as the specification words it: the three representations in the order
  single-select, multi-select (first entry), rich-text (first fragment), and the first
  one that is not empty wins; the empty string when none is.
\<close>

definition select_name :: "(string \<times> json) list \<Rightarrow> json" where
  "select_name c =
     (case map_of c ''select'' of
        Some (JDict sel) \<Rightarrow> (case map_of sel ''name'' of Some n \<Rightarrow> n | None \<Rightarrow> JStr '''')
      | _ \<Rightarrow> JStr '''')"

definition multi_select_name :: "(string \<times> json) list \<Rightarrow> json" where
  "multi_select_name c =
     (case map_of c ''multi_select'' of
        Some (JList (JDict m # ms)) \<Rightarrow> (case map_of m ''name'' of Some n \<Rightarrow> n | None \<Rightarrow> JStr '''')
      | _ \<Rightarrow> JStr '''')"

definition rich_text_content :: "(string \<times> json) list \<Rightarrow> json" where
  "rich_text_content c =
     (case map_of c ''rich_text'' of
        Some (JList (JDict f # fs)) \<Rightarrow>
          (case map_of f ''text'' of
             Some (JDict t) \<Rightarrow> (case map_of t ''content'' of Some n \<Rightarrow> n | None \<Rightarrow> JStr '''')
           | _ \<Rightarrow> JStr '''')
      | _ \<Rightarrow> JStr '''')"

definition first_non_empty :: "(string \<times> json) list \<Rightarrow> json" where
  "first_non_empty c =
     (if select_name c \<noteq> JStr '''' then select_name c
      else if multi_select_name c \<noteq> JStr '''' then multi_select_name c
      else rich_text_content c)"

section \<open>Extraction of the fields\<close>

lemma and_then_simps [simp]: "and_then (Inl e) f = Inl e" "and_then (Inr v) f = f v"
  by (simp_all add: and_then_def)

lemma and_then_Inr_iff: "and_then m f = Inr y \<longleftrightarrow> (\<exists>v. m = Inr v \<and> f v = Inr y)"
  by (cases m) simp_all

text \<open>
  C1, as the code has it. The category property is looked at in the order single-select,
  multi-select, rich-text, and the first representation that is present under its key
  decides alone: its name (for multi-select and rich-text, that of the first entry), or
  the empty string when its value is null or empty. The later representations are not
  consulted, whatever they hold. A row without the category property, or whose category
  property has none of the three keys, gets the empty string.
\<close>

theorem category_first_present:
  "(map_of ps ''Category'' = None \<longrightarrow> category_value (JDict ps) = Inr (JStr '''')) \<and>
   (map_of ps ''Category'' = Some (JDict c) \<longrightarrow>
      (map_of c ''select'' = Some sel \<longrightarrow>
         category_value (JDict ps) = (if truthy sel then getitem sel ''name'' else Inr (JStr ''''))) \<and>
      (map_of c ''select'' = None \<and> map_of c ''multi_select'' = Some multi \<longrightarrow>
         category_value (JDict ps) =
           (if truthy multi then and_then (getitem0 multi) (\<lambda>m. getitem m ''name'')
            else Inr (JStr ''''))) \<and>
      (map_of c ''select'' = None \<and> map_of c ''multi_select'' = None \<and>
       map_of c ''rich_text'' = Some rich \<longrightarrow>
         category_value (JDict ps) =
           (if truthy rich
            then and_then (getitem0 rich) (\<lambda>f. and_then (getitem f ''text'') (\<lambda>t. getitem t ''content''))
            else Inr (JStr ''''))) \<and>
      (map_of c ''select'' = None \<and> map_of c ''multi_select'' = None \<and>
       map_of c ''rich_text'' = None \<longrightarrow> category_value (JDict ps) = Inr (JStr '''')))"
  by (cases c) (auto simp: category_value_def)

text \<open>The five cases on rows: no category; single-select before rich-text; a null
  single-select before rich-text; multi-select before rich-text; rich-text alone; none
  of the three keys.\<close>

theorem category_first_present_witness:
  "category_value (JDict []) = Inr (JStr '''') \<and>
   category_value (JDict [(''Category'', JDict
      [(''select'', JDict [(''name'', JStr ''Food'')]),
       (''rich_text'', JList [JDict [(''text'', JDict [(''content'', JStr ''Misc'')])]])])])
     = Inr (JStr ''Food'') \<and>
   category_value (JDict [(''Category'', JDict
      [(''select'', JNull),
       (''rich_text'', JList [JDict [(''text'', JDict [(''content'', JStr ''Misc'')])]])])])
     = Inr (JStr '''') \<and>
   category_value (JDict [(''Category'', JDict
      [(''multi_select'', JList [JDict [(''name'', JStr ''Travel'')], JDict [(''name'', JStr ''Fun'')]]),
       (''rich_text'', JList [JDict [(''text'', JDict [(''content'', JStr ''Misc'')])]])])])
     = Inr (JStr ''Travel'') \<and>
   category_value (JDict [(''Category'', JDict
      [(''rich_text'', JList [JDict [(''text'', JDict [(''content'', JStr ''Rent'')])]])])])
     = Inr (JStr ''Rent'') \<and>
   category_value (JDict [(''Category'', JDict [(''id'', JStr ''abc'')])]) = Inr (JStr '''')"
  using category_first_present [of "[]"]
    category_first_present [of
      "[(''Category'', JDict
         [(''select'', JDict [(''name'', JStr ''Food'')]),
          (''rich_text'', JList [JDict [(''text'', JDict [(''content'', JStr ''Misc'')])]])])]"
      "[(''select'', JDict [(''name'', JStr ''Food'')]),
        (''rich_text'', JList [JDict [(''text'', JDict [(''content'', JStr ''Misc'')])]])]"
      "JDict [(''name'', JStr ''Food'')]"]
    category_first_present [of
      "[(''Category'', JDict
         [(''select'', JNull),
          (''rich_text'', JList [JDict [(''text'', JDict [(''content'', JStr ''Misc'')])]])])]"
      "[(''select'', JNull),
        (''rich_text'', JList [JDict [(''text'', JDict [(''content'', JStr ''Misc'')])]])]"
      "JNull"]
    category_first_present [of
      "[(''Category'', JDict
         [(''multi_select'', JList [JDict [(''name'', JStr ''Travel'')], JDict [(''name'', JStr ''Fun'')]]),
          (''rich_text'', JList [JDict [(''text'', JDict [(''content'', JStr ''Misc'')])]])])]"
      "[(''multi_select'', JList [JDict [(''name'', JStr ''Travel'')], JDict [(''name'', JStr ''Fun'')]]),
        (''rich_text'', JList [JDict [(''text'', JDict [(''content'', JStr ''Misc'')])]])]"
      _ "JList [JDict [(''name'', JStr ''Travel'')], JDict [(''name'', JStr ''Fun'')]]"]
    category_first_present [of
      "[(''Category'', JDict
         [(''rich_text'', JList [JDict [(''text'', JDict [(''content'', JStr ''Rent'')])]])])]"
      "[(''rich_text'', JList [JDict [(''text'', JDict [(''content'', JStr ''Rent'')])]])]"
      _ _ "JList [JDict [(''text'', JDict [(''content'', JStr ''Rent'')])]]"]
    category_first_present [of
      "[(''Category'', JDict [(''id'', JStr ''abc'')])]" "[(''id'', JStr ''abc'')]"]
  by simp

text \<open>C1 as stated fails: with a null single-select and a rich-text fragment
  \<^verbatim>\<open>Food\<close>, the first representation that is not empty is the rich-text, and the
  code answers the empty string.\<close>

theorem category_first_non_empty_counterexample:
  "category_value (JDict [(''Category'', JDict
      [(''select'', JNull),
       (''rich_text'', JList [JDict [(''text'', JDict [(''content'', JStr ''Food'')])]])])])
     = Inr (JStr '''') \<and>
   first_non_empty
      [(''select'', JNull),
       (''rich_text'', JList [JDict [(''text'', JDict [(''content'', JStr ''Food'')])]])]
     = JStr ''Food''"
  by (simp add: category_value_def first_non_empty_def select_name_def multi_select_name_def
      rich_text_content_def)

section \<open>The date of a row\<close>

lemma localized_Timestamp:
  "to_datetime_mixed lib dv = Inr (Timestamp w tz) \<Longrightarrow>
   localized lib dv =
     Inr (Timestamp (w - (case tz of None \<Rightarrow> 0 | Some off \<Rightarrow> off) + asia_kolkata) None)"
  by (cases tz) (simp_all add: localized_def)

lemma localized_raises:
  "localized lib dv = Inl e \<longleftrightarrow> to_datetime_mixed lib dv = Inl e"
proof (cases "to_datetime_mixed lib dv")
  case (Inl a)
  then show ?thesis by (simp add: localized_def)
next
  case (Inr t)
  then show ?thesis
  proof (cases t)
    case NaT
    with Inr show ?thesis by (simp add: localized_def)
  next
    case (Timestamp w tz)
    with Inr show ?thesis using localized_Timestamp [of lib dv w tz] by simp
  qed
qed

lemma extract_row_Date:
  "extract_row lib properties = Inr r \<Longrightarrow> date_value properties = Inr dv \<Longrightarrow>
   parsed_date lib dv = Inr (Date r)"
  by (auto simp: extract_row_def and_then_Inr_iff)

lemma extract_row_raises_date:
  "date_value properties = Inr dv \<Longrightarrow> parsed_date lib dv = Inl e \<Longrightarrow>
   \<exists>e'. extract_row lib properties = Inl e'"
  by (cases "category_value properties") (simp_all add: extract_row_def)

lemma extract_row_localized:
  assumes "date_value properties = Inr (JStr s)" and "s \<noteq> []"
    and "to_datetime_mixed lib (JStr s) = Inr (Timestamp w tz)"
    and "extract_row lib properties = Inr r"
  shows "Date r =
     Some (Timestamp (w - (case tz of None \<Rightarrow> 0 | Some off \<Rightarrow> off) + asia_kolkata) None)"
proof -
  have "parsed_date lib (JStr s) = Inr (Date r)"
    using assms(1,4) by (rule extract_row_Date [rotated])
  moreover have "parsed_date lib (JStr s) =
      Inr (Some (Timestamp (w - (case tz of None \<Rightarrow> 0 | Some off \<Rightarrow> off) + asia_kolkata) None))"
    using assms(2) localized_Timestamp [OF assms(3)] by (simp add: parsed_date_def)
  ultimately show ?thesis by simp
qed

lemma parsed_date_fallback:
  assumes "to_datetime_mixed lib (JStr s) = Inl e" and "s \<noteq> []"
  shows "parsed_date lib (JStr s) =
     and_then (to_datetime lib (JStr (takeWhile (\<lambda>c. c \<noteq> CHR ''T'') s))) (\<lambda>p. Inr (Some p))"
proof -
  have "localized lib (JStr s) = Inl e"
    using assms(1) by (simp add: localized_raises)
  then show ?thesis using assms(2) by (simp add: parsed_date_def)
qed

text \<open>
  C2, as the code has it. For a row that carries a date string which the flexible parse
  reads, the date of the record is the reading of that instant on the UTC+5:30 clock,
  a string without a zone being taken as UTC, and then without its zone: the local date
  together with the local time of day. Only the zone is dropped.
\<close>

theorem date_keeps_local_time:
  assumes "date_value properties = Inr (JStr s)" and "s \<noteq> []"
    and "to_datetime_mixed lib (JStr s) = Inr (Timestamp w tz)"
    and "extract_row lib properties = Inr r"
  shows "Date r =
     Some (Timestamp (w - (case tz of None \<Rightarrow> 0 | Some off \<Rightarrow> off) + asia_kolkata) None)"
  using assms by (rule extract_row_localized)

text \<open>A row dated 2024-01-15T10:00:00Z: the record's date reads 15:30 of that day.\<close>

theorem date_keeps_local_time_witness:
  "extract_row iso_library
     (JDict [(''Date'', JDict [(''date'', JDict [(''start'', JStr ''2024-01-15T10:00:00Z'')])])]) =
     Inr \<lparr>Name = JStr '''', Amount = 0, Category = JStr '''',
          Date = Some (Timestamp 1705332600000000000 None), Comment = JStr ''''\<rparr> \<and>
   Date \<lparr>Name = JStr '''', Amount = 0, Category = JStr '''',
         Date = Some (Timestamp 1705332600000000000 None), Comment = JStr ''''\<rparr> =
     Some (Timestamp (1705312800000000000 - 0 + asia_kolkata) None)"
proof -
  let ?p = "JDict [(''Date'', JDict [(''date'', JDict [(''start'', JStr ''2024-01-15T10:00:00Z'')])])]"
  have a: "date_value ?p = Inr (JStr ''2024-01-15T10:00:00Z'')" by code_simp
  have b: "''2024-01-15T10:00:00Z'' \<noteq> []" by simp
  have c: "to_datetime_mixed iso_library (JStr ''2024-01-15T10:00:00Z'') =
      Inr (Timestamp 1705312800000000000 (Some 0))" by code_simp
  have d: "extract_row iso_library ?p =
      Inr \<lparr>Name = JStr '''', Amount = 0, Category = JStr '''',
           Date = Some (Timestamp 1705332600000000000 None), Comment = JStr ''''\<rparr>" by code_simp
  show ?thesis using d date_keeps_local_time [OF a b c d] by simp
qed

text \<open>C2 as stated fails: the date of the record of that row has the time of day 15:30
  (55800 seconds into the day 2024-01-15), not the bare calendar date.\<close>

theorem date_time_of_day_counterexample:
  "extract_row iso_library
     (JDict [(''Date'', JDict [(''date'', JDict [(''start'', JStr ''2024-01-15T10:00:00Z'')])])]) =
     Inr \<lparr>Name = JStr '''', Amount = 0, Category = JStr '''',
          Date = Some (Timestamp 1705332600000000000 None), Comment = JStr ''''\<rparr> \<and>
   time_of_day (Timestamp 1705332600000000000 None) = 55800 * ns_per_second \<and>
   calendar_day (Timestamp 1705332600000000000 None) = days_from_civil 2024 1 15"
  by code_simp

text \<open>
  C8. A row whose date string has no zone and a row whose date string reads the same with
  the zone UTC get the same date: the reading moved by five hours and a half. The
  calendar day is that of the moved reading, also when the move crosses midnight.
\<close>

theorem zoneless_as_utc:
  assumes "to_datetime_mixed lib (JStr s) = Inr (Timestamp w None)"
    and "to_datetime_mixed lib (JStr s') = Inr (Timestamp w (Some 0))"
    and "date_value properties = Inr (JStr s)" and "date_value properties' = Inr (JStr s')"
    and "s \<noteq> []" and "s' \<noteq> []"
    and "extract_row lib properties = Inr r" and "extract_row lib properties' = Inr r'"
  shows "Date r = Date r' \<and> Date r = Some (Timestamp (w + asia_kolkata) None) \<and>
         (\<forall>t t'. Date r = Some t \<longrightarrow> Date r' = Some t' \<longrightarrow> calendar_day t = calendar_day t')"
  using extract_row_localized [OF assms(3,5,1,7)] extract_row_localized [OF assms(4,6,2,8)]
  by simp

text \<open>20:00 on 2024-01-15, without a zone and with \<^verbatim>\<open>Z\<close>: both rows are dated 01:30 on
  2024-01-16.\<close>

theorem zoneless_as_utc_witness:
  "Date \<lparr>Name = JStr '''', Amount = 0, Category = JStr '''',
         Date = Some (Timestamp 1705368600000000000 None), Comment = JStr ''''\<rparr> =
     Some (Timestamp (1705348800000000000 + asia_kolkata) None) \<and>
   calendar_day (Timestamp (1705348800000000000 + asia_kolkata) None) = days_from_civil 2024 1 16 \<and>
   calendar_day (Timestamp 1705348800000000000 None) = days_from_civil 2024 1 15"
proof -
  let ?p = "JDict [(''Date'', JDict [(''date'', JDict [(''start'', JStr ''2024-01-15T20:00:00'')])])]"
  let ?p' = "JDict [(''Date'', JDict [(''date'', JDict [(''start'', JStr ''2024-01-15T20:00:00Z'')])])]"
  let ?r = "\<lparr>Name = JStr '''', Amount = 0, Category = JStr '''',
           Date = Some (Timestamp 1705368600000000000 None), Comment = JStr ''''\<rparr>"
  have a: "to_datetime_mixed iso_library (JStr ''2024-01-15T20:00:00'') =
      Inr (Timestamp 1705348800000000000 None)" by code_simp
  have a': "to_datetime_mixed iso_library (JStr ''2024-01-15T20:00:00Z'') =
      Inr (Timestamp 1705348800000000000 (Some 0))" by code_simp
  have b: "date_value ?p = Inr (JStr ''2024-01-15T20:00:00'')" by code_simp
  have b': "date_value ?p' = Inr (JStr ''2024-01-15T20:00:00Z'')" by code_simp
  have c: "''2024-01-15T20:00:00'' \<noteq> []" and c': "''2024-01-15T20:00:00Z'' \<noteq> []"
    by simp_all
  have d: "extract_row iso_library ?p = Inr ?r" by code_simp
  have d': "extract_row iso_library ?p' = Inr ?r" by code_simp
  have e: "calendar_day (Timestamp (1705348800000000000 + asia_kolkata) None) =
      days_from_civil 2024 1 16" by code_simp
  have f: "calendar_day (Timestamp 1705348800000000000 None) = days_from_civil 2024 1 15"
    by code_simp
  show ?thesis using zoneless_as_utc [OF a a' b b' c c' d d'] e f by simp
qed

text \<open>
  C6, as the code has it. When the flexible parse of the date string raises, the date is
  what the date-only parse of the string up to its first \<^verbatim>\<open>T\<close> gives, as it is. When
  that parse raises too, the exception leaves the body of the row: no record is made for
  the row, and the loop goes on with the next row.
\<close>

theorem date_fallback:
  assumes "to_datetime_mixed lib (JStr s) = Inl e" and "s \<noteq> []"
  shows "(\<forall>t. to_datetime lib (JStr (takeWhile (\<lambda>c. c \<noteq> CHR ''T'') s)) = Inr t \<longrightarrow>
            parsed_date lib (JStr s) = Inr (Some t)) \<and>
         (\<forall>e'. to_datetime lib (JStr (takeWhile (\<lambda>c. c \<noteq> CHR ''T'') s)) = Inl e' \<longrightarrow>
            parsed_date lib (JStr s) = Inl e' \<and>
            (\<forall>page p rest b acc. getitem page ''properties'' = Inr p \<longrightarrow>
               date_value p = Inr (JStr s) \<longrightarrow>
               (\<exists>e''. try_row lib page = Inl e'') \<and>
               process_rows lib b (page # rest) acc = process_rows lib (Some p) rest acc))"
proof (intro conjI allI impI)
  fix t
  assume "to_datetime lib (JStr (takeWhile (\<lambda>c. c \<noteq> CHR ''T'') s)) = Inr t"
  then show "parsed_date lib (JStr s) = Inr (Some t)"
    using parsed_date_fallback [OF assms] by simp
next
  fix e'
  assume f: "to_datetime lib (JStr (takeWhile (\<lambda>c. c \<noteq> CHR ''T'') s)) = Inl e'"
  then show pd: "parsed_date lib (JStr s) = Inl e'"
    using parsed_date_fallback [OF assms] by simp
  fix page p rest b acc
  assume g: "getitem page ''properties'' = Inr p" and d: "date_value p = Inr (JStr s)"
  from extract_row_raises_date [OF d pd]
  obtain e'' where x: "extract_row lib p = Inl e''" by blast
  then show "\<exists>e''. try_row lib page = Inl e''"
    using g by (simp add: try_row_def)
  show "process_rows lib b (page # rest) acc = process_rows lib (Some p) rest acc"
    using g x by simp
qed

text \<open>An hour of 25 makes the flexible parse raise and the date-only parse gives the
  day; a string that is no date makes both raise, and the row leaves no record.\<close>

theorem date_fallback_witness:
  "parsed_date iso_library (JStr ''2024-01-15T25:00:00'') =
     Inr (Some (Timestamp (days_from_civil 2024 1 15 * ns_per_day) None)) \<and>
   parsed_date iso_library (JStr ''next week'') = Inl DateParseError \<and>
   process_rows iso_library None
     [JDict [(''properties'',
        JDict [(''Date'', JDict [(''date'', JDict [(''start'', JStr ''next week'')])])])]] [] =
   Inr []"
proof -
  have a: "to_datetime_mixed iso_library (JStr ''2024-01-15T25:00:00'') = Inl DateParseError"
    by code_simp
  have b: "to_datetime iso_library
      (JStr (takeWhile (\<lambda>c. c \<noteq> CHR ''T'') ''2024-01-15T25:00:00'')) =
      Inr (Timestamp (days_from_civil 2024 1 15 * ns_per_day) None)"
    by code_simp
  have c: "to_datetime_mixed iso_library (JStr ''next week'') = Inl DateParseError"
    by code_simp
  have d: "to_datetime iso_library (JStr (takeWhile (\<lambda>c. c \<noteq> CHR ''T'') ''next week'')) =
      Inl DateParseError"
    by code_simp
  let ?p = "JDict [(''Date'', JDict [(''date'', JDict [(''start'', JStr ''next week'')])])]"
  have g: "getitem (JDict [(''properties'', ?p)]) ''properties'' = Inr ?p" by simp
  have h: "date_value ?p = Inr (JStr ''next week'')" by (simp add: date_value_def)
  have "parsed_date iso_library (JStr ''2024-01-15T25:00:00'') =
      Inr (Some (Timestamp (days_from_civil 2024 1 15 * ns_per_day) None))"
    using date_fallback [OF a] b by blast
  moreover have "parsed_date iso_library (JStr ''next week'') = Inl DateParseError"
    using date_fallback [OF c] d by blast
  moreover have "process_rows iso_library None [JDict [(''properties'', ?p)]] [] =
      process_rows iso_library (Some ?p) [] []"
    using date_fallback [OF c] d g h by blast
  ultimately show ?thesis by simp
qed

text \<open>C6 as stated fails: for a row whose date string makes both parses raise, the body
  of the row raises and the loop makes no record, with a null date or otherwise.\<close>

theorem date_both_fail_counterexample:
  "try_row iso_library
     (JDict [(''properties'',
        JDict [(''Date'', JDict [(''date'', JDict [(''start'', JStr ''next week'')])])])]) =
     Inl DateParseError \<and>
   process_rows iso_library None
     [JDict [(''properties'',
        JDict [(''Date'', JDict [(''date'', JDict [(''start'', JStr ''next week'')])])])]] [] =
     Inr []"
  by code_simp

section \<open>Defaults of the fields\<close>

lemma first_content_missing:
  "missing ps field key \<Longrightarrow> first_content (JDict ps) field key = Inr (JStr '''')"
  by (auto simp: missing_def first_content_def split: option.splits json.splits)

lemma double_overflow_large: "2 ^ 64 \<le> double_overflow"
  by (simp add: double_overflow_def)

lemma double_overflow_pos: "0 < double_overflow"
  using double_overflow_large by simp

lemma amount_missing:
  "missing ps ''Amount'' ''number'' \<Longrightarrow> amount lib (JDict ps) = Inr 0"
  by (auto simp: missing_def amount_def double_overflow_pos split: option.splits json.splits)

lemma category_absent:
  "map_of ps ''Category'' = None \<Longrightarrow> category_value (JDict ps) = Inr (JStr '''')"
  by (simp add: category_value_def)

text \<open>
  C4, as the code has it. A field that is missing degrades to its default: the name and the
  comment to the empty string when the property is absent, or has no fragments (the key
  is absent, null or empty); the amount to zero when the property or its number is absent,
  null or zero; the category to the empty string when its property is absent. A row all
  of whose four fields are missing, and whose date is read, gives the record of the
  defaults. A malformed field is not covered: its extraction can raise.
\<close>

theorem missing_fields_default:
  "(missing ps ''Name'' ''title'' \<longrightarrow>
      first_content (JDict ps) ''Name'' ''title'' = Inr (JStr '''')) \<and>
   (missing ps ''Amount'' ''number'' \<longrightarrow> amount lib (JDict ps) = Inr 0) \<and>
   (map_of ps ''Category'' = None \<longrightarrow> category_value (JDict ps) = Inr (JStr '''')) \<and>
   (missing ps ''Comment'' ''rich_text'' \<longrightarrow>
      first_content (JDict ps) ''Comment'' ''rich_text'' = Inr (JStr '''')) \<and>
   (missing ps ''Name'' ''title'' \<and> missing ps ''Amount'' ''number'' \<and>
    map_of ps ''Category'' = None \<and> missing ps ''Comment'' ''rich_text'' \<longrightarrow>
      (\<forall>dv d. date_value (JDict ps) = Inr dv \<longrightarrow> parsed_date lib dv = Inr d \<longrightarrow>
         extract_row lib (JDict ps) =
           Inr \<lparr>Name = JStr '''', Amount = 0, Category = JStr '''', Date = d,
                Comment = JStr ''''\<rparr>))"
  by (simp add: first_content_missing amount_missing category_absent extract_row_def)

text \<open>An empty title, a null number, no category, a comment property without fragments,
  and a row that has only a date.\<close>

theorem missing_fields_default_witness:
  "first_content (JDict [(''Name'', JDict [(''title'', JList [])])]) ''Name'' ''title'' =
     Inr (JStr '''') \<and>
   amount iso_library (JDict [(''Amount'', JDict [(''number'', JNull)])]) = Inr 0 \<and>
   category_value (JDict [(''Amount'', JDict [(''number'', JNull)])]) = Inr (JStr '''') \<and>
   first_content (JDict [(''Comment'', JDict [(''id'', JStr ''x'')])]) ''Comment'' ''rich_text'' =
     Inr (JStr '''') \<and>
   extract_row iso_library
     (JDict [(''Date'', JDict [(''date'', JDict [(''start'', JStr ''2024-01-15'')])])]) =
     Inr \<lparr>Name = JStr '''', Amount = 0, Category = JStr '''',
          Date = Some (Timestamp 1705296600000000000 None), Comment = JStr ''''\<rparr>"
proof -
  let ?p = "[(''Date'', JDict [(''date'', JDict [(''start'', JStr ''2024-01-15'')])])]"
  have a: "missing [(''Name'', JDict [(''title'', JList [])])] ''Name'' ''title''"
    by (simp add: missing_def)
  have b: "missing [(''Amount'', JDict [(''number'', JNull)])] ''Amount'' ''number''"
    by (simp add: missing_def)
  have c: "map_of [(''Amount'', JDict [(''number'', JNull)])] ''Category'' = None"
    by simp
  have d: "missing [(''Comment'', JDict [(''id'', JStr ''x'')])] ''Comment'' ''rich_text''"
    by (simp add: missing_def)
  have e: "missing ?p ''Name'' ''title''" "missing ?p ''Amount'' ''number''"
      "map_of ?p ''Category'' = None" "missing ?p ''Comment'' ''rich_text''"
    by (simp_all add: missing_def)
  have f: "date_value (JDict ?p) = Inr (JStr ''2024-01-15'')"
    by (simp add: date_value_def)
  have g: "parsed_date iso_library (JStr ''2024-01-15'') =
      Inr (Some (Timestamp 1705296600000000000 None))"
    by code_simp
  have "first_content (JDict [(''Name'', JDict [(''title'', JList [])])]) ''Name'' ''title'' =
      Inr (JStr '''')"
    using missing_fields_default [of "[(''Name'', JDict [(''title'', JList [])])]"] a by simp
  moreover have "amount iso_library (JDict [(''Amount'', JDict [(''number'', JNull)])]) = Inr 0"
    and "category_value (JDict [(''Amount'', JDict [(''number'', JNull)])]) = Inr (JStr '''')"
    using missing_fields_default [of "[(''Amount'', JDict [(''number'', JNull)])]" iso_library] b c
    by simp_all
  moreover have "first_content (JDict [(''Comment'', JDict [(''id'', JStr ''x'')])])
      ''Comment'' ''rich_text'' = Inr (JStr '''')"
    using missing_fields_default [of "[(''Comment'', JDict [(''id'', JStr ''x'')])]"] d by simp
  moreover have "extract_row iso_library (JDict ?p) =
      Inr \<lparr>Name = JStr '''', Amount = 0, Category = JStr '''',
           Date = Some (Timestamp 1705296600000000000 None), Comment = JStr ''''\<rparr>"
    using missing_fields_default [of ?p iso_library] e f g by simp
  ultimately show ?thesis by simp
qed

text \<open>C4 as stated fails: a rich-text category whose first fragment is a mention (it has
  no \<^verbatim>\<open>text\<close>), a title that is a string, a null amount property and a comment whose
  fragment is a string each raise, and the loop drops a dated row for its category.\<close>

theorem malformed_field_counterexample:
  "category_value (JDict [(''Category'', JDict [(''rich_text'',
      JList [JDict [(''type'', JStr ''mention''), (''plain_text'', JStr ''@Anna'')]])])]) =
     Inl KeyError \<and>
   first_content (JDict [(''Name'', JDict [(''title'', JStr ''Lunch'')])]) ''Name'' ''title'' =
     Inl AttributeError \<and>
   amount iso_library (JDict [(''Amount'', JNull)]) = Inl AttributeError \<and>
   first_content (JDict [(''Comment'', JDict [(''rich_text'', JList [JStr ''late''])])])
     ''Comment'' ''rich_text'' = Inl AttributeError \<and>
   process_rows iso_library None
     [JDict [(''properties'', JDict
        [(''Date'', JDict [(''date'', JDict [(''start'', JStr ''2024-01-15'')])]),
         (''Category'', JDict [(''rich_text'',
            JList [JDict [(''type'', JStr ''mention''), (''plain_text'', JStr ''@Anna'')]])])])]] [] =
     Inr []"
  by code_simp




section \<open>The table and the rows that are dropped\<close>

lemma filter_not_filter: "filter (\<lambda>x. \<not> P x) (filter P xs) = []"
  by (induction xs) simp_all

lemma table_Inr:
  assumes "table processed_data = Inr df"
  shows "rows df = sort_key (\<lambda>r. sort_instant (Date r)) (filter (\<lambda>r. notna (Date r)) processed_data)"
    and "columns df = schema"
    and "comparable (filter (\<lambda>r. notna (Date r)) processed_data)"
  using assms
  by (auto simp: table_def sort_values_Date_def dropna_Date_def filter_not_filter Let_def
      comparable_def split: if_splits)

lemma table_comparable:
  assumes "comparable (filter (\<lambda>r. notna (Date r)) processed_data)"
  shows "table processed_data =
     Inr \<lparr>columns = schema,
          rows = sort_key (\<lambda>r. sort_instant (Date r)) (filter (\<lambda>r. notna (Date r)) processed_data)\<rparr>"
  using assms
  by (auto simp: table_def sort_values_Date_def dropna_Date_def filter_not_filter Let_def)

lemma load_data_Inr:
  assumes "load_data_from_notion lib src st = Some (Inr df)"
  obtains results processed_data where "fetch src st = Some (Inr results)"
    and "process_rows lib None results [] = Inr processed_data"
    and "table processed_data = Inr df"
  using assms
  by (auto simp: load_data_from_notion_def process_results_def and_then_Inr_iff
      split: option.splits sum.splits)

lemma comparable_sort:
  "comparable rs \<Longrightarrow> comparable (sort_key f rs)"
  by (simp add: comparable_def list_all_iff)

text \<open>
  C3. Whatever the source and the library, a table that ingestion returns holds only
  records whose date is present, and its records are in ascending order of their dates;
  the dates of a table are all zone-less or all zoned, so that the order of their
  instants is the order of the dates themselves.
\<close>

theorem table_dated_sorted:
  assumes "load_data_from_notion lib src st = Some (Inr df)"
  shows "(\<forall>r\<in>set (rows df). notna (Date r)) \<and>
         sorted (map (\<lambda>r. sort_instant (Date r)) (rows df)) \<and>
         comparable (rows df)"
proof -
  from assms obtain processed_data where t: "table processed_data = Inr df"
    by (rule load_data_Inr)
  show ?thesis
    using table_Inr(1) [OF t] comparable_sort [OF table_Inr(3) [OF t]] by simp
qed

lemma records_Nil [simp]: "records lib [] = []"
  by (simp add: records_def)

lemma records_Cons:
  "records lib (page # results) =
     (case try_row lib page of Inl e \<Rightarrow> [] | Inr r \<Rightarrow> [r]) @ records lib results"
  by (simp add: records_def)

lemma records_append: "records lib (xs @ ys) = records lib xs @ records lib ys"
  by (simp add: records_def)

lemma process_rows_records:
  "list_all page_object results \<Longrightarrow>
   process_rows lib b results acc = Inr (acc @ records lib results)"
proof (induction results arbitrary: b acc)
  case Nil
  then show ?case by simp
next
  case (Cons page results)
  from Cons.prems obtain p where p: "getitem page ''properties'' = Inr p"
    by (auto simp: page_object_def split: sum.splits)
  from Cons.prems have rest: "list_all page_object results" by simp
  show ?case
  proof (cases "extract_row lib p")
    case (Inl e)
    then show ?thesis
      using p Cons.IH [OF rest] by (simp add: records_Cons try_row_def)
  next
    case (Inr r)
    then show ?thesis
      using p Cons.IH [OF rest] by (simp add: records_Cons try_row_def)
  qed
qed

lemma not_raises_page_object: "\<not> raises lib page \<Longrightarrow> page_object page"
  by (auto simp: raises_def page_object_def try_row_def split: sum.splits)

lemma length_records:
  "length (records lib xs) + length (filter (raises lib) xs) = length xs"
  by (induction xs) (auto simp: records_Cons raises_def split: sum.splits)

lemma length_dated:
  "length (filter (\<lambda>r. notna (Date r)) (records lib xs)) + length (filter (dateless lib) xs) =
   length (records lib xs)"
  by (induction xs) (auto simp: records_Cons dateless_def split: sum.splits)

lemma no_survivor:
  "\<forall>page\<in>set xs. raises lib page \<or> dateless lib page \<Longrightarrow>
   filter (\<lambda>r. notna (Date r)) (records lib xs) = []"
  by (induction xs) (auto simp: records_Cons raises_def dateless_def split: sum.splits)

lemma comparable_Nil [simp]: "comparable []"
  by (simp add: comparable_def)

text \<open>
  The empty result on full page objects. When the source has delivered a batch of full
  page objects none of which survives, each row raising in extraction or yielding a
  record without a date, ingestion returns the table without rows whose columns are
  Name, Amount, Category, Date and Comment.
\<close>

lemma no_survivor_empty_table:
  assumes "fetch src st = Some (Inr results)"
    and "\<forall>page\<in>set results. page_object page"
    and "\<forall>page\<in>set results. raises lib page \<or> dateless lib page"
  shows "load_data_from_notion lib src st = Some (Inr \<lparr>columns = schema, rows = []\<rparr>)"
proof -
  have "process_rows lib None results [] = Inr (records lib results)"
    using process_rows_records [of results lib None "[]"] assms(2) by (simp add: list_all_iff)
  moreover have "table (records lib results) = Inr \<lparr>columns = schema, rows = []\<rparr>"
    using table_comparable [of "records lib results"] no_survivor [OF assms(3)] by simp
  ultimately show ?thesis
    using assms(1) by (simp add: load_data_from_notion_def process_results_def)
qed

text \<open>
  C5, as the code has it. In a batch where the field extraction of exactly one full page
  object raises and every other row is extracted, the loop makes the records of all the
  other rows, in their order and one fewer than the raw rows; the table holds those of
  them that have a date. Its row count is the raw count less one and less the number of
  rows without a date, provided the dates that remain can be compared.
\<close>

theorem one_row_raises:
  assumes "getitem bad ''properties'' = Inr p" and "extract_row lib p = Inl e"
    and "\<forall>page\<in>set (pre @ post). \<not> raises lib page"
    and "comparable (filter (\<lambda>r. notna (Date r)) (records lib (pre @ post)))"
  shows "process_rows lib None (pre @ bad # post) [] = Inr (records lib (pre @ post)) \<and>
         length (records lib (pre @ post)) + 1 = length (pre @ bad # post) \<and>
         (\<exists>df. process_results lib (pre @ bad # post) = Inr df \<and>
            columns df = schema \<and>
            mset (rows df) = mset (filter (\<lambda>r. notna (Date r)) (records lib (pre @ post))) \<and>
            length (rows df) + length (filter (dateless lib) (pre @ post)) + 1 =
              length (pre @ bad # post))"
proof -
  have bad: "try_row lib bad = Inl e"
    using assms(1,2) by (simp add: try_row_def)
  have "page_object bad"
    using assms(1) by (simp add: page_object_def)
  then have all: "list_all page_object (pre @ bad # post)"
    using assms(3) by (auto simp: list_all_iff intro: not_raises_page_object)
  have same: "records lib (pre @ bad # post) = records lib (pre @ post)"
    using bad by (simp add: records_append records_Cons)
  have rows: "process_rows lib None (pre @ bad # post) [] = Inr (records lib (pre @ post))"
    using process_rows_records [OF all, of lib None "[]"] same by simp
  have "filter (raises lib) (pre @ post) = []"
    using assms(3) by (auto simp: filter_empty_conv)
  then have len: "length (records lib (pre @ post)) = length (pre @ post)"
    using length_records [of lib "pre @ post"] by simp
  have tab: "process_results lib (pre @ bad # post) =
      Inr \<lparr>columns = schema,
           rows = sort_key (\<lambda>r. sort_instant (Date r))
             (filter (\<lambda>r. notna (Date r)) (records lib (pre @ post)))\<rparr>"
    using rows table_comparable [OF assms(4)] by (simp add: process_results_def)
  show ?thesis
    using rows len tab length_dated [of lib "pre @ post"] by simp
qed

section \<open>Pagination\<close>

lemma page_list_dict:
  assumes "page_list q"
  obtains kvs rs where "q = JDict kvs" and "map_of kvs ''results'' = Some (JList rs)"
    and "list_all page_object rs"
  using assms by (cases q) (auto simp: page_list_def split: option.splits json.splits)

lemma results_of_page_list:
  "page_list q \<Longrightarrow> list_all page_object (results_of q)"
  by (erule page_list_dict) (simp add: results_of_def)

lemma next_page_page_list: "page_list q \<Longrightarrow> next_page q = Inr (results_of q)"
  by (erule page_list_dict) (simp add: next_page_def results_of_def)

lemma first_page_page_list: "page_list q \<Longrightarrow> first_page q = Inr (results_of q)"
proof (erule page_list_dict)
  fix kvs rs
  assume q: "q = JDict kvs" "map_of kvs ''results'' = Some (JList rs)"
    and rs: "list_all page_object rs"
  show "first_page q = Inr (results_of q)"
  proof (cases rs)
    case Nil
    with q show ?thesis by (simp add: first_page_def results_of_def)
  next
    case (Cons page rest)
    with rs obtain p where "getitem page ''properties'' = Inr p"
      by (auto simp: page_object_def split: sum.splits)
    with q Cons show ?thesis by (simp add: first_page_def results_of_def)
  qed
qed

lemma serves_first: "serves src st c (q # qs) \<Longrightarrow> fst (src st c) = Inr q"
  by (cases qs) simp_all

lemma paginate_last:
  assumes "\<not> says_more q" and "page_list q"
  shows "paginate src st q acc = Some (Inr acc)"
  using assms(2)
proof (rule page_list_dict)
  fix kvs rs
  assume "q = JDict kvs"
  with assms(1) show ?thesis
    by (subst paginate.simps) (simp add: says_more_def)
qed

lemma paginate_more:
  assumes "says_more q" and "getitem q ''next_cursor'' = Inr cursor"
    and "fst (src st (Some cursor)) = Inr q'" and "page_list q'"
  shows "paginate src st q acc =
     paginate src (snd (src st (Some cursor))) q' (acc @ results_of q')"
proof -
  from assms(1) obtain v where "dict_get q ''has_more'' (JBool False) = Inr v" and "truthy v"
    by (auto simp: says_more_def split: sum.splits)
  then show ?thesis
    using assms(2,3) next_page_page_list [OF assms(4)]
    by (subst paginate.simps) simp
qed

lemma paginate_serves:
  "serves src st c (q # qs) \<Longrightarrow> page_list q \<Longrightarrow> list_all page_list qs \<Longrightarrow>
   paginate src (snd (src st c)) q acc = Some (Inr (acc @ concat (map results_of qs)))"
proof (induction qs arbitrary: st c q acc)
  case Nil
  then show ?case by (simp add: paginate_last)
next
  case (Cons q' qs)
  from Cons.prems(1) obtain cursor where more: "says_more q"
    and cur: "getitem q ''next_cursor'' = Inr cursor"
    and rest: "serves src (snd (src st c)) (Some cursor) (q' # qs)"
    by (auto split: sum.splits)
  from Cons.prems(3) have pl: "page_list q'" and pls: "list_all page_list qs" by simp_all
  have "paginate src (snd (src st c)) q acc =
      paginate src (snd (src (snd (src st c)) (Some cursor))) q' (acc @ results_of q')"
    using more cur serves_first [OF rest] pl by (rule paginate_more)
  also have "\<dots> = Some (Inr ((acc @ results_of q') @ concat (map results_of qs)))"
    using rest pl pls by (rule Cons.IH)
  finally show ?case by simp
qed

lemma fetch_serves:
  assumes "serves src st None pages" and "list_all page_list pages"
  shows "fetch src st = Some (Inr (concat (map results_of pages)))"
proof (cases pages)
  case Nil
  with assms(1) show ?thesis by simp
next
  case (Cons q qs)
  with assms have s: "serves src st None (q # qs)" and pl: "page_list q"
    and pls: "list_all page_list qs" by simp_all
  show ?thesis
    using serves_first [OF s] first_page_page_list [OF pl]
      paginate_serves [OF s pl pls, of "results_of q"] Cons
    by (simp add: fetch_def)
qed

text \<open>
  C7, as the code has it. When the source serves N responses, all but the last saying
  \<^verbatim>\<open>has_more\<close>, and each response lists full page objects, ingestion ends after it has
  requested the N of them: the raw rows are the rows of all the responses in order. The
  row count of the table is the sum of the row counts of the responses less the rows that
  raise in extraction and less the rows that yield no date, provided the dates that
  remain can be compared.
\<close>

theorem paginated_row_count:
  assumes "serves src st None pages" and "\<forall>q\<in>set pages. page_list q"
    and "comparable (filter (\<lambda>r. notna (Date r)) (records lib (concat (map results_of pages))))"
  shows "fetch src st = Some (Inr (concat (map results_of pages))) \<and>
         (\<exists>df. load_data_from_notion lib src st = Some (Inr df) \<and>
            length (rows df)
              + length (filter (raises lib) (concat (map results_of pages)))
              + length (filter (dateless lib) (concat (map results_of pages)))
            = (\<Sum>q\<leftarrow>pages. length (results_of q)))"
proof -
  let ?all = "concat (map results_of pages)"
  have pls: "list_all page_list pages"
    using assms(2) by (simp add: list_all_iff)
  have f: "fetch src st = Some (Inr ?all)"
    using assms(1) pls by (rule fetch_serves)
  have "list_all page_object ?all"
    using assms(2) results_of_page_list by (auto simp: list_all_iff)
  then have rows: "process_rows lib None ?all [] = Inr (records lib ?all)"
    using process_rows_records [of ?all lib None "[]"] by simp
  have "load_data_from_notion lib src st =
      Some (Inr \<lparr>columns = schema,
                 rows = sort_key (\<lambda>r. sort_instant (Date r))
                   (filter (\<lambda>r. notna (Date r)) (records lib ?all))\<rparr>)"
    using f rows table_comparable [OF assms(3)]
    by (simp add: load_data_from_notion_def process_results_def)
  moreover have "length ?all = (\<Sum>q\<leftarrow>pages. length (results_of q))"
    by (simp add: length_concat comp_def)
  ultimately show ?thesis
    using f length_records [of lib ?all] length_dated [of lib ?all] by simp
qed

section \<open>Evaluation on batches\<close>

text \<open>Five rows on two responses, out of order, one of them without a date and one
  raising: the table has the three dated records in ascending order.\<close>

theorem table_dated_sorted_witness:
  "load_data_from_notion iso_library replay [first_response, second_response] =
     Some (Inr \<lparr>columns = schema,
       rows = [expense_record ''lunch'' 12 1705332600000000000,
               expense_record ''book'' 20 1707543000000000000,
               expense_record ''rent'' 900 1709271000000000000]\<rparr>) \<and>
   list_all (\<lambda>r. notna (Date r))
     [expense_record ''lunch'' 12 1705332600000000000,
      expense_record ''book'' 20 1707543000000000000,
      expense_record ''rent'' 900 1709271000000000000] \<and>
   sorted (map (\<lambda>r. sort_instant (Date r))
     [expense_record ''lunch'' 12 1705332600000000000,
      expense_record ''book'' 20 1707543000000000000,
      expense_record ''rent'' 900 1709271000000000000])"
proof -
  have h: "load_data_from_notion iso_library replay [first_response, second_response] =
     Some (Inr \<lparr>columns = schema,
       rows = [expense_record ''lunch'' 12 1705332600000000000,
               expense_record ''book'' 20 1707543000000000000,
               expense_record ''rent'' 900 1709271000000000000]\<rparr>)"
    by code_simp
  show ?thesis using h table_dated_sorted [OF h] by simp
qed

text \<open>On a batch of a row with an empty date cell, which raises, and a row without a date
  property; and the empty batch.\<close>

lemma no_survivor_empty_table_on_batches:
  "load_data_from_notion iso_library replay
     [response [expense_empty_date ''bus'' 3, expense_no_date ''tea'' 2] False JNull] =
     Some (Inr \<lparr>columns = schema, rows = []\<rparr>) \<and>
   load_data_from_notion iso_library replay [response [] False JNull] =
     Some (Inr \<lparr>columns = schema, rows = []\<rparr>)"
proof -
  let ?batch = "[expense_empty_date ''bus'' 3, expense_no_date ''tea'' 2]"
  have a: "fetch replay [response ?batch False JNull] = Some (Inr ?batch)"
    by code_simp
  have b: "\<forall>page\<in>set ?batch. page_object page"
    by code_simp
  have c: "\<forall>page\<in>set ?batch. raises iso_library page \<or> dateless iso_library page"
    by code_simp
  have a': "fetch replay [response [] False JNull] = Some (Inr [])"
    by code_simp
  show ?thesis
    using no_survivor_empty_table [OF a b c]
      no_survivor_empty_table [OF a', of iso_library] by simp
qed

text \<open>Four rows, the second with an empty date cell, the third without a date
  property.\<close>

theorem one_row_raises_witness:
  "process_rows iso_library None
     ([expense ''lunch'' 12 ''2024-01-15T10:00:00Z''] @ expense_empty_date ''bus'' 3 #
      [expense_no_date ''tea'' 2, expense ''rent'' 900 ''2024-03-01'']) [] =
     Inr (records iso_library
       ([expense ''lunch'' 12 ''2024-01-15T10:00:00Z''] @
        [expense_no_date ''tea'' 2, expense ''rent'' 900 ''2024-03-01''])) \<and>
   length (records iso_library
       ([expense ''lunch'' 12 ''2024-01-15T10:00:00Z''] @
        [expense_no_date ''tea'' 2, expense ''rent'' 900 ''2024-03-01''])) + 1 =
     length ([expense ''lunch'' 12 ''2024-01-15T10:00:00Z''] @ expense_empty_date ''bus'' 3 #
      [expense_no_date ''tea'' 2, expense ''rent'' 900 ''2024-03-01'']) \<and>
   (\<exists>df. process_results iso_library
       ([expense ''lunch'' 12 ''2024-01-15T10:00:00Z''] @ expense_empty_date ''bus'' 3 #
        [expense_no_date ''tea'' 2, expense ''rent'' 900 ''2024-03-01'']) = Inr df \<and>
      columns df = schema \<and>
      mset (rows df) = mset (filter (\<lambda>r. notna (Date r)) (records iso_library
       ([expense ''lunch'' 12 ''2024-01-15T10:00:00Z''] @
        [expense_no_date ''tea'' 2, expense ''rent'' 900 ''2024-03-01'']))) \<and>
      length (rows df) + length (filter (dateless iso_library)
       ([expense ''lunch'' 12 ''2024-01-15T10:00:00Z''] @
        [expense_no_date ''tea'' 2, expense ''rent'' 900 ''2024-03-01''])) + 1 =
      length ([expense ''lunch'' 12 ''2024-01-15T10:00:00Z''] @ expense_empty_date ''bus'' 3 #
        [expense_no_date ''tea'' 2, expense ''rent'' 900 ''2024-03-01'']))"
proof -
  let ?p = "JDict
       [(''Name'', JDict [(''title'', JList [JDict [(''text'', JDict [(''content'', JStr ''bus'')])]])]),
        (''Amount'', JDict [(''number'', JInt 3)]),
        (''Date'', JDict [(''date'', JNull)])]"
  have a: "getitem (expense_empty_date ''bus'' 3) ''properties'' = Inr ?p"
    by (simp add: expense_empty_date_def)
  have b: "extract_row iso_library ?p = Inl AttributeError"
    by code_simp
  have c: "\<forall>page\<in>set ([expense ''lunch'' 12 ''2024-01-15T10:00:00Z''] @
        [expense_no_date ''tea'' 2, expense ''rent'' 900 ''2024-03-01'']).
      \<not> raises iso_library page"
    by code_simp
  have d: "comparable (filter (\<lambda>r. notna (Date r)) (records iso_library
       ([expense ''lunch'' 12 ''2024-01-15T10:00:00Z''] @
        [expense_no_date ''tea'' 2, expense ''rent'' 900 ''2024-03-01''])))"
    by code_simp
  show ?thesis by (rule one_row_raises [OF a b c d])
qed

text \<open>C5 as stated fails: of these four rows exactly one raises, and the table has two
  rows, not three, since the row without a date property is dropped as well.\<close>

theorem one_fewer_row_counterexample:
  "load_data_from_notion iso_library replay
     [response [expense ''lunch'' 12 ''2024-01-15T10:00:00Z'', expense_empty_date ''bus'' 3,
                expense_no_date ''tea'' 2, expense ''rent'' 900 ''2024-03-01''] False JNull] =
     Some (Inr \<lparr>columns = schema,
       rows = [expense_record ''lunch'' 12 1705332600000000000,
               expense_record ''rent'' 900 1709271000000000000]\<rparr>) \<and>
   filter (raises iso_library)
     [expense ''lunch'' 12 ''2024-01-15T10:00:00Z'', expense_empty_date ''bus'' 3,
      expense_no_date ''tea'' 2, expense ''rent'' 900 ''2024-03-01''] =
     [expense_empty_date ''bus'' 3] \<and>
   length [expense_record ''lunch'' 12 1705332600000000000,
           expense_record ''rent'' 900 1709271000000000000] + 1 \<noteq>
   length [expense ''lunch'' 12 ''2024-01-15T10:00:00Z'', expense_empty_date ''bus'' 3,
      expense_no_date ''tea'' 2, expense ''rent'' 900 ''2024-03-01'']"
  by code_simp

text \<open>The two responses: three and two rows, one raising, one without a date.\<close>

theorem paginated_row_count_witness:
  "fetch replay [first_response, second_response] =
     Some (Inr (concat (map results_of [first_response, second_response]))) \<and>
   (\<exists>df. load_data_from_notion iso_library replay [first_response, second_response] =
        Some (Inr df) \<and>
      length (rows df)
        + length (filter (raises iso_library)
            (concat (map results_of [first_response, second_response])))
        + length (filter (dateless iso_library)
            (concat (map results_of [first_response, second_response])))
      = (\<Sum>q\<leftarrow>[first_response, second_response]. length (results_of q)))"
proof -
  have a: "serves replay [first_response, second_response] None
      [first_response, second_response]"
    by code_simp
  have b: "\<forall>q\<in>set [first_response, second_response]. page_list q"
    by code_simp
  have c: "comparable (filter (\<lambda>r. notna (Date r))
      (records iso_library (concat (map results_of [first_response, second_response]))))"
    by code_simp
  show ?thesis by (rule paginated_row_count [OF a b c])
qed

text \<open>C7 as stated fails: the source serves the two responses, with five rows of which
  one raises in extraction, and the table has three rows, not four.\<close>

theorem paginated_row_count_counterexample:
  "serves replay [first_response, second_response] None [first_response, second_response] \<and>
   load_data_from_notion iso_library replay [first_response, second_response] =
     Some (Inr \<lparr>columns = schema,
       rows = [expense_record ''lunch'' 12 1705332600000000000,
               expense_record ''book'' 20 1707543000000000000,
               expense_record ''rent'' 900 1709271000000000000]\<rparr>) \<and>
   length [expense_record ''lunch'' 12 1705332600000000000,
           expense_record ''book'' 20 1707543000000000000,
           expense_record ''rent'' 900 1709271000000000000] = 3 \<and>
   length (results_of first_response) + length (results_of second_response) = 5 \<and>
   length (filter (raises iso_library) (results_of first_response @ results_of second_response)) = 1"
  by code_simp

subsection \<open>Rows without properties\<close>

text \<open>
  C9 fails on the code. A batch whose only row is a partial page object has no row that
  survives, and ingestion raises instead of returning the table without rows: the log
  line of line 44 reads the properties of the first row of the first response, outside
  the \<^verbatim>\<open>try\<close> of the row, and raises \<^verbatim>\<open>KeyError\<close>. When the first response is
  empty and the partial page object opens the second, the handler of line 108 formats
  the variable \<^verbatim>\<open>properties\<close>, which no row has bound yet, and raises
  \<^verbatim>\<open>UnboundLocalError\<close>. In both cases the exception is the function's.
\<close>

theorem partial_page_raises:
  "load_data_from_notion iso_library replay [response [partial_page ''p1''] False JNull] =
     Some (Inl KeyError) \<and>
   load_data_from_notion iso_library replay
     [response [] True (JStr ''c1''), response [partial_page ''p1''] False JNull] =
     Some (Inl UnboundLocalError) \<and>
   records iso_library [partial_page ''p1''] = []"
  by code_simp

text \<open>Once a row has bound the variable, a later row without properties is skipped as
  the handler means it to be; before that, the dated rows of the batch are lost with
  it.\<close>

lemma handler_after_properties_bound:
  "load_data_from_notion iso_library replay
     [response [expense ''book'' 20 ''2024-02-10'', partial_page ''p1''] False JNull] =
     Some (Inr \<lparr>columns = schema, rows = [expense_record ''book'' 20 1707543000000000000]\<rparr>)"
  by code_simp

lemma handler_before_properties_bound:
  "load_data_from_notion iso_library replay
     [response [partial_page ''p1'', expense ''book'' 20 ''2024-02-10''] False JNull] =
     Some (Inl KeyError) \<and>
   load_data_from_notion iso_library replay
     [response [] True (JStr ''c1''),
      response [partial_page ''p1'', expense ''book'' 20 ''2024-02-10''] False JNull] =
     Some (Inl UnboundLocalError)"
  by code_simp

end
